theory Spec2Isabelle
  imports Main "HOL-Library.Word"
begin

section \<open>Decoded JSON values and Python errors\<close>

text \<open>
  The station record is whatever \<open>json.loads\<close> returns: \<open>None\<close>, a bool, an int, a
  float, a str, a list or a dict with string keys. A float is kept as its IEEE-754 bit
  pattern, which is all that its truth value needs. A dict is an association list read
  with \<open>map_of\<close>.
\<close>

datatype json =
    JNull
  | JBool bool
  | JInt int
  | JFloat "64 word"
  | JStr string
  | JArr "json list"
  | JObj "(string \<times> json) list"

text \<open>
  The exceptions that the program can raise. \<open>RuntimeError\<close> carries its argument, which
  is an arbitrary decoded value in \<open>station_info\<close>; \<open>KeyError\<close> carries the missing key;
  \<open>UnboundLocalError\<close> carries the name of the local variable read before assignment.
\<close>

datatype error =
    KeyError string
  | TypeError
  | RuntimeError json
  | UnboundLocalError string
  | AssertionError
  | OtherError string

text \<open>Python's truth value of a decoded value (\<open>if x\<close>, \<open>not x\<close>).\<close>

fun truthy :: "json \<Rightarrow> bool" where
  "truthy JNull = False"
| "truthy (JBool b) = b"
| "truthy (JInt i) = (i \<noteq> 0)"
| "truthy (JFloat w) = (take_bit 63 w \<noteq> 0)"
| "truthy (JStr s) = (s \<noteq> [])"
| "truthy (JArr xs) = (xs \<noteq> [])"
| "truthy (JObj kvs) = (kvs \<noteq> [])"

text \<open>
  \<open>obj[key]\<close> with a string key: a dict raises \<open>KeyError\<close> on a missing key, every other
  decoded value raises \<open>TypeError\<close> (not subscriptable, or indices must be integers).
\<close>

fun subscript :: "json \<Rightarrow> string \<Rightarrow> error + json" where
  "subscript (JObj kvs) key =
     (case map_of kvs key of None \<Rightarrow> Inl (KeyError key) | Some v \<Rightarrow> Inr v)"
| "subscript _ key = Inl TypeError"

section \<open>Stream selection\<close>

text \<open>
  Every function returns its outcome together with the lines it printed, in order.
\<close>

type_synonym 'a printed = "(error + 'a) \<times> string list"

definition preference_order :: "string list" where
  "preference_order =
     [''shoutcast_stream'', ''pls_stream'', ''secure_rtmp_stream'', ''stw_stream'']"

definition stw_warning :: string where
  "stw_warning = ''warning: using stw_stream, this stream type is not known to work anywhere''"

text \<open>
  The \<open>for candidate in preference_order\<close> loop of \<open>detect_stream\<close>. The result
  \<open>Some choice\<close> is an exit through \<open>break\<close> with \<open>choice\<close> bound; \<open>None\<close> is the
  exhausted loop, where \<open>choice\<close> was never assigned. Only \<open>KeyError\<close> is caught.
\<close>

fun candidates_loop :: "json \<Rightarrow> string list \<Rightarrow> (json option) printed" where
  "candidates_loop stream_dict [] = (Inr None, [])"
| "candidates_loop stream_dict (candidate # rest) =
     (case subscript stream_dict candidate of
        Inr choice \<Rightarrow> (Inr (Some choice), [''stream type auto: using '' @ candidate])
      | Inl (KeyError k) \<Rightarrow> candidates_loop stream_dict rest
      | Inl e \<Rightarrow> (Inl e, []))"

text \<open>
  \<open>detect_stream\<close>: the \<open>else\<close> clause of the loop runs when the loop was not left by
  \<open>break\<close>; it prints the warning, and \<open>return choice\<close> then reads an unbound local.
\<close>

definition detect_stream :: "json \<Rightarrow> json printed" where
  "detect_stream station =
     (case subscript station ''streams'' of
        Inl e \<Rightarrow> (Inl e, [])
      | Inr stream_dict \<Rightarrow>
          (case candidates_loop stream_dict preference_order of
             (Inl e, out) \<Rightarrow> (Inl e, out)
           | (Inr (Some choice), out) \<Rightarrow> (Inr choice, out)
           | (Inr None, out) \<Rightarrow> (Inl (UnboundLocalError ''choice''), out @ [stw_warning])))"

text \<open>\<open>station['streams'][key]\<close>.\<close>

definition streams_item :: "json \<Rightarrow> string \<Rightarrow> error + json" where
  "streams_item station key =
     (case subscript station ''streams'' of
        Inl e \<Rightarrow> Inl e
      | Inr stream_dict \<Rightarrow> subscript stream_dict key)"

text \<open>
  One explicit branch of \<open>get_station_url\<close>:
  \<open>if station['streams'][key]: print(...); station_url = station['streams'][key]\<close>.
  The value of \<open>station_url\<close> after the branch is returned; it starts as \<open>None\<close>.
\<close>

definition explicit_branch :: "json \<Rightarrow> string \<Rightarrow> string list \<Rightarrow> json printed" where
  "explicit_branch station key msgs =
     (case streams_item station key of
        Inl e \<Rightarrow> (Inl e, [])
      | Inr v \<Rightarrow>
          if truthy v then
            (case streams_item station key of
               Inl e \<Rightarrow> (Inl e, msgs)
             | Inr station_url \<Rightarrow> (Inr station_url, msgs))
          else (Inr JNull, []))"

definition no_such_stream :: error where
  "no_such_stream = RuntimeError (JStr ''Requested stream does not exist'')"

definition get_station_url :: "json \<Rightarrow> string \<Rightarrow> json printed" where
  "get_station_url station stream_type =
     (case (if stream_type = ''auto'' then detect_stream station
            else if stream_type = ''rtmp'' then explicit_branch station ''secure_rtmp_stream'' []
            else if stream_type = ''shout'' then explicit_branch station ''shoutcast_stream'' []
            else if stream_type = ''stw'' then explicit_branch station ''stw_stream'' [stw_warning]
            else if stream_type = ''pls'' then explicit_branch station ''pls_stream'' []
            else (Inr JNull, [])) of
        (Inl e, out) \<Rightarrow> (Inl e, out)
      | (Inr station_url, out) \<Rightarrow>
          if \<not> truthy station_url then (Inl no_such_stream, out)
          else (Inr station_url, out))"

section \<open>The URL functions of the standard library\<close>

text \<open>
  \<open>station_info\<close> builds its request URL with \<open>str\<close> and two calls of
  \<open>urllib.parse.urljoin\<close>. The functions below follow CPython's \<open>urllib/parse.py\<close>
  on \<open>str\<close> arguments. Python strings are modelled as lists of characters.
\<close>

text \<open>
  \<open>str(n)\<close> for an int: decimal digits, most significant first, with a leading minus
  sign for a negative number. (The interpreter's optional cap on the number of digits of
  such a conversion is not part of the model.)
\<close>

fun digits :: "nat \<Rightarrow> string" where
  "digits n =
     (if n < 10 then [char_of (48 + n)]
      else digits (n div 10) @ [char_of (48 + n mod 10)])"

definition str_int :: "int \<Rightarrow> string" where
  "str_int i = (if i < 0 then CHR ''-'' # digits (nat (- i)) else digits (nat i))"

text \<open>
  For a character \<open>c\<close> that occurs in \<open>s\<close>, \<open>before c s\<close> is \<open>s[:s.find(c)]\<close> and
  \<open>after c s\<close> is \<open>s[s.find(c)+1:]\<close>.
\<close>

definition before :: "char \<Rightarrow> string \<Rightarrow> string" where
  "before c s = takeWhile (\<lambda>x. x \<noteq> c) s"

definition after :: "char \<Rightarrow> string \<Rightarrow> string" where
  "after c s = drop 1 (dropWhile (\<lambda>x. x \<noteq> c) s)"

text \<open>\<open>s.split(c)\<close> and \<open>c.join(parts)\<close> for a one-character separator.\<close>

fun split_on :: "char \<Rightarrow> string \<Rightarrow> string list" where
  "split_on c [] = [[]]"
| "split_on c (x # xs) =
     (if x = c then [] # split_on c xs
      else (case split_on c xs of [] \<Rightarrow> [[x]] | y # ys \<Rightarrow> (x # y) # ys))"

fun join_on :: "char \<Rightarrow> string list \<Rightarrow> string" where
  "join_on c [] = []"
| "join_on c [s] = s"
| "join_on c (s # t # ts) = s @ c # join_on c (t # ts)"

definition uses_relative :: "string list" where
  "uses_relative = ['''', ''ftp'', ''http'', ''gopher'', ''nntp'', ''imap'',
     ''wais'', ''file'', ''https'', ''shttp'', ''mms'',
     ''prospero'', ''rtsp'', ''rtsps'', ''rtspu'', ''sftp'',
     ''svn'', ''svn+ssh'', ''ws'', ''wss'']"

definition uses_netloc :: "string list" where
  "uses_netloc = ['''', ''ftp'', ''http'', ''gopher'', ''nntp'', ''telnet'',
     ''imap'', ''wais'', ''file'', ''mms'', ''https'', ''shttp'',
     ''snews'', ''prospero'', ''rtsp'', ''rtsps'', ''rtspu'', ''rsync'',
     ''svn'', ''svn+ssh'', ''sftp'', ''nfs'', ''git'', ''git+ssh'',
     ''ws'', ''wss'', ''itms-services'']"

definition uses_params :: "string list" where
  "uses_params = ['''', ''ftp'', ''hdl'', ''prospero'', ''http'', ''imap'',
     ''https'', ''shttp'', ''rtsp'', ''rtsps'', ''rtspu'', ''sip'',
     ''sips'', ''mms'', ''sftp'', ''tel'']"

definition scheme_chars :: string where
  "scheme_chars = ''abcdefghijklmnopqrstuvwxyzABCDEFGHIJKLMNOPQRSTUVWXYZ0123456789+-.''"

text \<open>\<open>c.isascii() and c.isalpha()\<close>, and \<open>lower()\<close> on the characters of a scheme.\<close>

definition ascii_alpha :: "char \<Rightarrow> bool" where
  "ascii_alpha c = (c \<in> set ''abcdefghijklmnopqrstuvwxyzABCDEFGHIJKLMNOPQRSTUVWXYZ'')"

definition ascii_lower :: "char \<Rightarrow> char" where
  "ascii_lower c =
     (if c \<in> set ''ABCDEFGHIJKLMNOPQRSTUVWXYZ'' then char_of (of_char c + (32::nat)) else c)"

text \<open>
  The characters that \<open>urlsplit\<close> strips from the ends (C0 controls and space) and the
  ones it deletes everywhere (tab, carriage return, line feed).
\<close>

definition c0_control_or_space :: "char \<Rightarrow> bool" where
  "c0_control_or_space c = (of_char c \<le> (32::nat))"

definition unsafe_url_byte :: "char \<Rightarrow> bool" where
  "unsafe_url_byte c = (c \<in> set [CHR 0x09, CHR 0x0D, CHR 0x0A])"

text \<open>\<open>_splitnetloc(url, 2)\<close>: the network location ends at the first of \<open>/\<close>, \<open>?\<close>, \<open>#\<close>.\<close>

definition splitnetloc :: "string \<Rightarrow> string \<times> string" where
  "splitnetloc url =
     (takeWhile (\<lambda>c. c \<notin> set ''/?#'') (drop 2 url),
      dropWhile (\<lambda>c. c \<notin> set ''/?#'') (drop 2 url))"

text \<open>
  The checks of \<open>urlsplit\<close> on a non-empty network location (unbalanced or invalid
  IPv6 brackets, characters that turn into delimiters under NFKC normalisation) depend
  on Unicode tables and address parsing. They are a parameter: the \<open>ValueError\<close>
  raised for a network location, if any.
\<close>

type_synonym netloc_check = "string \<Rightarrow> error option"

text \<open>The steps of \<open>urlsplit\<close>, in the order of its body.\<close>

definition clean_url :: "string \<Rightarrow> string" where
  "clean_url url =
     filter (\<lambda>c. \<not> unsafe_url_byte c) (dropWhile c0_control_or_space url)"

definition clean_scheme :: "string \<Rightarrow> string" where
  "clean_scheme scheme =
     filter (\<lambda>c. \<not> unsafe_url_byte c)
       (rev (dropWhile c0_control_or_space (rev (dropWhile c0_control_or_space scheme))))"

definition split_scheme :: "string \<Rightarrow> string \<Rightarrow> string \<times> string" where
  "split_scheme scheme url =
     (if CHR '':'' \<in> set url \<and> before CHR '':'' url \<noteq> [] \<and> ascii_alpha (hd url)
         \<and> list_all (\<lambda>c. c \<in> set scheme_chars) (before CHR '':'' url)
      then (map ascii_lower (before CHR '':'' url), after CHR '':'' url)
      else (scheme, url))"

definition netloc_part :: "string \<Rightarrow> string \<times> string" where
  "netloc_part url = (if take 2 url = ''//'' then splitnetloc url else ([], url))"

definition split_once :: "char \<Rightarrow> string \<Rightarrow> string \<times> string" where
  "split_once c url = (if c \<in> set url then (before c url, after c url) else (url, []))"

definition urlsplit ::
  "netloc_check \<Rightarrow> string \<Rightarrow> string \<Rightarrow>
     error + (string \<times> string \<times> string \<times> string \<times> string)"
where
  "urlsplit check url0 scheme0 =
     (case split_scheme (clean_scheme scheme0) (clean_url url0) of (scheme, url2) \<Rightarrow>
      case netloc_part url2 of (netloc, url3) \<Rightarrow>
      case (if netloc = [] then None else check netloc) of
        Some e \<Rightarrow> Inl e
      | None \<Rightarrow>
          (case split_once CHR ''#'' url3 of (url4, fragment) \<Rightarrow>
           case split_once CHR ''?'' url4 of (url5, query) \<Rightarrow>
             Inr (scheme, netloc, url5, query, fragment)))"

text \<open>
  \<open>_splitparams\<close>: the parameters start at the first \<open>;\<close> of the last path segment.
  \<open>i\<close> is \<open>url.rfind('/')\<close>.
\<close>

definition splitparams :: "string \<Rightarrow> string \<times> string" where
  "splitparams url =
     (if CHR ''/'' \<in> set url then
        (let i = length url - 1 - length (takeWhile (\<lambda>c. c \<noteq> CHR ''/'') (rev url));
             tail = drop i url
         in if CHR '';'' \<in> set tail
            then (take i url @ before CHR '';'' tail, after CHR '';'' tail)
            else (url, []))
      else if CHR '';'' \<in> set url then (before CHR '';'' url, after CHR '';'' url)
      else (butlast url, url))"

definition urlparse ::
  "netloc_check \<Rightarrow> string \<Rightarrow> string \<Rightarrow>
     error + (string \<times> string \<times> string \<times> string \<times> string \<times> string)"
where
  "urlparse check url0 scheme0 =
     (case urlsplit check url0 scheme0 of
        Inl e \<Rightarrow> Inl e
      | Inr (scheme, netloc, url, query, fragment) \<Rightarrow>
          (let (url', params) =
                 (if scheme \<in> set uses_params \<and> CHR '';'' \<in> set url then splitparams url
                  else (url, []))
           in Inr (scheme, netloc, url', params, query, fragment)))"

definition urlunsplit :: "string \<times> string \<times> string \<times> string \<times> string \<Rightarrow> string" where
  "urlunsplit components =
     (case components of (scheme, netloc, url0, query, fragment) \<Rightarrow>
        (let url1 =
               (if netloc \<noteq> [] \<or>
                   (scheme \<noteq> [] \<and> scheme \<in> set uses_netloc \<and> take 2 url0 \<noteq> ''//'')
                then ''//'' @ netloc @
                       (if url0 \<noteq> [] \<and> take 1 url0 \<noteq> ''/'' then CHR ''/'' # url0 else url0)
                else url0);
             url2 = (if scheme \<noteq> [] then scheme @ CHR '':'' # url1 else url1);
             url3 = (if query \<noteq> [] then url2 @ CHR ''?'' # query else url2)
         in if fragment \<noteq> [] then url3 @ CHR ''#'' # fragment else url3))"

definition urlunparse ::
  "string \<times> string \<times> string \<times> string \<times> string \<times> string \<Rightarrow> string" where
  "urlunparse components =
     (case components of (scheme, netloc, url, params, query, fragment) \<Rightarrow>
        urlunsplit (scheme, netloc, (if params \<noteq> [] then url @ CHR '';'' # params else url),
                    query, fragment))"

text \<open>
  The loop of \<open>urljoin\<close> over the path segments: \<open>..\<close> pops the last resolved segment
  (an empty list stays empty), \<open>.\<close> is skipped, anything else is appended.
\<close>

fun resolve_segments :: "string list \<Rightarrow> string list \<Rightarrow> string list" where
  "resolve_segments resolved_path [] = resolved_path"
| "resolve_segments resolved_path (seg # segs) =
     (if seg = ''..'' then resolve_segments (butlast resolved_path) segs
      else if seg = ''.'' then resolve_segments resolved_path segs
      else resolve_segments (resolved_path @ [seg]) segs)"

text \<open>\<open>segments[1:-1] = filter(None, segments[1:-1])\<close>.\<close>

fun filter_inner :: "string list \<Rightarrow> string list" where
  "filter_inner [] = []"
| "filter_inner [s] = [s]"
| "filter_inner (s # t # ts) =
     s # filter (\<lambda>x. x \<noteq> []) (butlast (t # ts)) @ [last (t # ts)]"

text \<open>The tail of \<open>urljoin\<close>: the path of the reference resolved against the base path.\<close>

definition resolve_path :: "string \<Rightarrow> string \<Rightarrow> string" where
  "resolve_path bpath path =
     (let base_parts0 = split_on CHR ''/'' bpath;
          base_parts = (if last base_parts0 \<noteq> [] then butlast base_parts0 else base_parts0);
          segments =
            (if take 1 path = ''/'' then split_on CHR ''/'' path
             else filter_inner (base_parts @ split_on CHR ''/'' path));
          resolved0 = resolve_segments [] segments;
          resolved_path =
            (if last segments \<in> set [''.'', ''..''] then resolved0 @ [[]] else resolved0);
          joined = join_on CHR ''/'' resolved_path
      in if joined = [] then ''/'' else joined)"

definition urljoin :: "netloc_check \<Rightarrow> string \<Rightarrow> string \<Rightarrow> error + string" where
  "urljoin check base url =
     (if base = [] then Inr url
      else if url = [] then Inr base
      else
        case urlparse check base [] of
          Inl e \<Rightarrow> Inl e
        | Inr (bscheme, bnetloc, bpath, bparams, bquery, bfragment) \<Rightarrow>
        case urlparse check url bscheme of
          Inl e \<Rightarrow> Inl e
        | Inr (scheme, netloc, path, params, query, fragment) \<Rightarrow>
        if scheme \<noteq> bscheme \<or> scheme \<notin> set uses_relative then Inr url
        else if scheme \<in> set uses_netloc \<and> netloc \<noteq> [] then
          Inr (urlunparse (scheme, netloc, path, params, query, fragment))
        else
          (let netloc' = (if scheme \<in> set uses_netloc then bnetloc else netloc)
           in if path = [] \<and> params = [] then
                Inr (urlunparse (scheme, netloc', bpath, bparams,
                                 (if query = [] then bquery else query), fragment))
              else
                Inr (urlunparse (scheme, netloc', resolve_path bpath path,
                                 params, query, fragment))))"

section \<open>Station lookup\<close>

text \<open>
  What \<open>station_info\<close> reads of the HTTP response: \<open>getheader(name)\<close>, which is \<open>None\<close>
  for an absent header, and the bytes of \<open>read()\<close>.
\<close>

record response =
  getheader :: "string \<Rightarrow> string option"
  read :: string

text \<open>
  The world outside the program: the network behind \<open>urllib.request.urlopen(url, data)\<close>,
  the decoders \<open>bytes.decode('utf-8')\<close> and \<open>json.loads\<close>, and the network-location
  check of \<open>urlsplit\<close>. Each of them returns a value or raises.
\<close>

record env =
  checknetloc :: netloc_check
  urlopen :: "string \<Rightarrow> string \<Rightarrow> error + response"
  decode_utf8 :: "string \<Rightarrow> error + string"
  json_loads :: "string \<Rightarrow> error + json"

definition iheart_base_url :: string where
  "iheart_base_url = ''http://www.iheart.com/a/live/station/''"

definition iheart_url_postfix :: string where
  "iheart_url_postfix = ''stream/''"

text \<open>The two \<open>urljoin\<close> calls that compute \<open>iheart_url\<close>.\<close>

definition iheart_url :: "netloc_check \<Rightarrow> int \<Rightarrow> error + string" where
  "iheart_url check station_id =
     (case urljoin check iheart_base_url (str_int station_id @ ''/'') of
        Inl e \<Rightarrow> Inl e
      | Inr url \<Rightarrow> urljoin check url iheart_url_postfix)"

text \<open>
  \<open>station_info\<close>: the request with the body \<open>'1'\<close>, the \<open>assert\<close> on the content type,
  the decoding, and the test of the \<open>ok\<close> field.
\<close>

definition station_info :: "env \<Rightarrow> int \<Rightarrow> error + json" where
  "station_info env station_id =
     (case iheart_url (checknetloc env) station_id of
        Inl e \<Rightarrow> Inl e
      | Inr url \<Rightarrow>
     (case urlopen env url ''1'' of
        Inl e \<Rightarrow> Inl e
      | Inr response \<Rightarrow>
          if getheader response ''Content-Type'' \<noteq> Some ''application/json; charset=utf-8''
          then Inl AssertionError
          else
     (case decode_utf8 env (read response) of
        Inl e \<Rightarrow> Inl e
      | Inr text \<Rightarrow>
     (case json_loads env text of
        Inl e \<Rightarrow> Inl e
      | Inr station \<Rightarrow>
     (case subscript station ''ok'' of
        Inl e \<Rightarrow> Inl e
      | Inr ok \<Rightarrow>
          if \<not> truthy ok then
            (case subscript station ''error'' of
               Inl e \<Rightarrow> Inl e
             | Inr message \<Rightarrow> Inl (RuntimeError message))
          else Inr station)))))"

text \<open>
  A server for examples: every request is answered with the given \<open>Content-Type\<close>
  header and a body that decodes to the given value; every network location is accepted.
\<close>

definition canned_env :: "string option \<Rightarrow> json \<Rightarrow> env" where
  "canned_env content_type station =
     \<lparr> checknetloc = (\<lambda>netloc. None),
       urlopen = (\<lambda>url data. Inr \<lparr> getheader = (\<lambda>name. if name = ''Content-Type''
                                                      then content_type else None),
                                   read = [] \<rparr>),
       decode_utf8 = (\<lambda>bytes. Inr bytes),
       json_loads = (\<lambda>text. Inr station) \<rparr>"

section \<open>Properties of stream selection\<close>

text \<open>
  On a dict, the loop stops at the first candidate that is a key, prints the line naming
  it and leaves with its value; with no candidate present it runs to exhaustion silently.
\<close>

lemma candidates_loop_dict:
  "candidates_loop (JObj streams) ks =
     (case find (\<lambda>k. map_of streams k \<noteq> None) ks of
        None \<Rightarrow> (Inr None, [])
      | Some k \<Rightarrow> (Inr (map_of streams k), [''stream type auto: using '' @ k]))"
  by (induction ks) (auto split: option.splits)

text \<open>
  C1. For a station record whose \<open>streams\<close> mapping has at least one of the four keys of
  the preference order, with \<open>k\<close> the first of them that is present and \<open>url\<close> its value,
  \<open>detect_stream\<close> returns \<open>url\<close> and prints only the line that names \<open>k\<close>. Through
  \<open>get_station_url\<close> with \<open>'auto'\<close> the same value is returned whenever it is truthy, as
  every non-empty URL string is.
\<close>

theorem detect_stream_first_present:
  assumes "station = JObj members"
    and "map_of members ''streams'' = Some (JObj streams)"
    and "find (\<lambda>k. map_of streams k \<noteq> None) preference_order = Some k"
    and "map_of streams k = Some url"
  shows "detect_stream station = (Inr url, [''stream type auto: using '' @ k])
       \<and> get_station_url station ''auto'' =
           (if truthy url then Inr url else Inl no_such_stream,
            [''stream type auto: using '' @ k])"
  using assms by (simp add: detect_stream_def get_station_url_def candidates_loop_dict)

text \<open>
  The record with both \<open>shoutcast_stream\<close> and \<open>secure_rtmp_stream\<close>: the shoutcast URL
  is chosen, whatever the order of the keys in the dict.
\<close>

theorem detect_stream_first_present_witness:
  "detect_stream (JObj [(''ok'', JBool True), (''streams'', JObj
       [(''secure_rtmp_stream'', JStr ''rtmp://r''), (''shoutcast_stream'', JStr ''http://s'')])])
     = (Inr (JStr ''http://s''), [''stream type auto: using shoutcast_stream''])
   \<and> get_station_url (JObj [(''ok'', JBool True), (''streams'', JObj
       [(''secure_rtmp_stream'', JStr ''rtmp://r''), (''shoutcast_stream'', JStr ''http://s'')])])
       ''auto''
     = (Inr (JStr ''http://s''), [''stream type auto: using shoutcast_stream''])"
  using detect_stream_first_present [of
    "JObj [(''ok'', JBool True), (''streams'', JObj
       [(''secure_rtmp_stream'', JStr ''rtmp://r''), (''shoutcast_stream'', JStr ''http://s'')])]"
    "[(''ok'', JBool True), (''streams'', JObj
       [(''secure_rtmp_stream'', JStr ''rtmp://r''), (''shoutcast_stream'', JStr ''http://s'')])]"
    "[(''secure_rtmp_stream'', JStr ''rtmp://r''), (''shoutcast_stream'', JStr ''http://s'')]"
    "''shoutcast_stream''" "JStr ''http://s''"]
  by (simp add: preference_order_def)

text \<open>
  C2. A record whose \<open>streams\<close> mapping holds only \<open>stw_stream\<close>: automatic selection
  returns its value, but the loop leaves through \<open>break\<close>, so the \<open>else\<close> clause with the
  warning is skipped and the warning is not among the printed lines.
\<close>

theorem auto_only_stw_no_warning:
  "get_station_url (JObj [(''streams'', JObj [(''stw_stream'', JStr ''http://stw'')])]) ''auto''
     = (Inr (JStr ''http://stw''), [''stream type auto: using stw_stream''])
   \<and> stw_warning \<notin> set (snd (get_station_url
         (JObj [(''streams'', JObj [(''stw_stream'', JStr ''http://stw'')])]) ''auto''))"
  by (simp add: get_station_url_def detect_stream_def preference_order_def stw_warning_def)

text \<open>
  C3. A record whose \<open>streams\<close> mapping is empty: automatic selection prints the stw
  warning and then fails on the unbound local \<open>choice\<close>, which is not the
  \<open>RuntimeError\<close> of a missing stream.
\<close>

theorem auto_empty_streams_unbound:
  "get_station_url (JObj [(''streams'', JObj [])]) ''auto''
     = (Inl (UnboundLocalError ''choice''), [stw_warning])
   \<and> fst (get_station_url (JObj [(''streams'', JObj [])]) ''auto'') \<noteq> Inl no_such_stream"
  by (simp add: get_station_url_def detect_stream_def preference_order_def no_such_stream_def)

text \<open>
  C4, as the claim states it, fails: with \<open>shoutcast_stream\<close> missing, the request for
  \<open>'shout'\<close> ends in a \<open>KeyError\<close>, not in the \<open>RuntimeError\<close> of a missing stream.
\<close>

theorem shout_missing_counterexample:
  "get_station_url (JObj [(''streams'', JObj [(''pls_stream'', JStr ''http://p'')])]) ''shout''
     = (Inl (KeyError ''shoutcast_stream''), [])
   \<and> fst (get_station_url (JObj [(''streams'', JObj [(''pls_stream'', JStr ''http://p'')])])
         ''shout'') \<noteq> Inl no_such_stream"
  by (simp add: get_station_url_def explicit_branch_def streams_item_def no_such_stream_def)

text \<open>
  C4, amended. For every station record whose \<open>streams\<close> mapping lacks the key
  \<open>shoutcast_stream\<close>, the request for \<open>'shout'\<close> fails with the \<open>KeyError\<close> of that key
  and prints nothing, as the docstring of \<open>get_station_url\<close> announces.
\<close>

theorem shout_missing_key_error:
  assumes "station = JObj members"
    and "map_of members ''streams'' = Some (JObj streams)"
    and "map_of streams ''shoutcast_stream'' = None"
  shows "get_station_url station ''shout'' = (Inl (KeyError ''shoutcast_stream''), [])"
  using assms by (simp add: get_station_url_def explicit_branch_def streams_item_def)

theorem shout_missing_key_error_witness:
  "get_station_url (JObj [(''streams'', JObj [(''pls_stream'', JStr ''http://p'')])]) ''shout''
     = (Inl (KeyError ''shoutcast_stream''), [])"
  using shout_missing_key_error [of _ "[(''streams'', JObj [(''pls_stream'', JStr ''http://p'')])]"
      "[(''pls_stream'', JStr ''http://p'')]"]
  by simp

text \<open>
  C5, as the claim states it, fails: a request for \<open>'stw'\<close> on a record without
  \<open>stw_stream\<close> prints no warning at all.
\<close>

theorem stw_warning_counterexample:
  "count_list (snd (get_station_url
       (JObj [(''streams'', JObj [(''pls_stream'', JStr ''http://p'')])]) ''stw'')) stw_warning \<noteq> 1"
  by (simp add: get_station_url_def explicit_branch_def streams_item_def)

text \<open>
  C5, amended. For every station record with a \<open>streams\<close> mapping, the request for
  \<open>'stw'\<close> prints the stw warning exactly once when \<open>stw_stream\<close> is present with a truthy
  value, which is then returned; it prints nothing when the key is missing (\<open>KeyError\<close>)
  or its value is falsy (no such stream).
\<close>

theorem stw_warning_iff_selected:
  assumes "station = JObj members"
    and "map_of members ''streams'' = Some (JObj streams)"
  shows "get_station_url station ''stw'' =
     (case map_of streams ''stw_stream'' of
        None \<Rightarrow> (Inl (KeyError ''stw_stream''), [])
      | Some v \<Rightarrow> if truthy v then (Inr v, [stw_warning]) else (Inl no_such_stream, []))"
  using assms
  by (simp add: get_station_url_def explicit_branch_def streams_item_def split: option.splits)

theorem stw_warning_iff_selected_witness:
  "get_station_url (JObj [(''streams'', JObj [(''stw_stream'', JStr ''http://stw'')])]) ''stw''
     = (Inr (JStr ''http://stw''), [stw_warning])"
  using stw_warning_iff_selected [of _
      "[(''streams'', JObj [(''stw_stream'', JStr ''http://stw'')])]"
      "[(''stw_stream'', JStr ''http://stw'')]"]
  by simp

text \<open>
  C6. For every station record and each explicit stream type \<open>rtmp\<close>, \<open>shout\<close>, \<open>stw\<close>,
  \<open>pls\<close>: when the key it stands for is present in \<open>streams\<close> with a falsy value, the
  request fails with the \<open>RuntimeError\<close> of a missing stream, and nothing is printed.
\<close>

theorem explicit_falsy_no_such_stream:
  assumes "station = JObj members"
    and "map_of members ''streams'' = Some (JObj streams)"
    and "\<not> truthy v"
  shows "(map_of streams ''secure_rtmp_stream'' = Some v \<longrightarrow>
            get_station_url station ''rtmp'' = (Inl no_such_stream, []))
       \<and> (map_of streams ''shoutcast_stream'' = Some v \<longrightarrow>
            get_station_url station ''shout'' = (Inl no_such_stream, []))
       \<and> (map_of streams ''stw_stream'' = Some v \<longrightarrow>
            get_station_url station ''stw'' = (Inl no_such_stream, []))
       \<and> (map_of streams ''pls_stream'' = Some v \<longrightarrow>
            get_station_url station ''pls'' = (Inl no_such_stream, []))"
  using assms by (simp add: get_station_url_def explicit_branch_def streams_item_def)

theorem explicit_falsy_no_such_stream_witness:
  "get_station_url (JObj [(''streams'', JObj [(''secure_rtmp_stream'', JStr []),
       (''shoutcast_stream'', JStr []), (''stw_stream'', JStr []),
       (''pls_stream'', JStr [])])]) ''rtmp'' = (Inl no_such_stream, [])
 \<and> get_station_url (JObj [(''streams'', JObj [(''secure_rtmp_stream'', JStr []),
       (''shoutcast_stream'', JStr []), (''stw_stream'', JStr []),
       (''pls_stream'', JStr [])])]) ''shout'' = (Inl no_such_stream, [])
 \<and> get_station_url (JObj [(''streams'', JObj [(''secure_rtmp_stream'', JStr []),
       (''shoutcast_stream'', JStr []), (''stw_stream'', JStr []),
       (''pls_stream'', JStr [])])]) ''stw'' = (Inl no_such_stream, [])
 \<and> get_station_url (JObj [(''streams'', JObj [(''secure_rtmp_stream'', JStr []),
       (''shoutcast_stream'', JStr []), (''stw_stream'', JStr []),
       (''pls_stream'', JStr [])])]) ''pls'' = (Inl no_such_stream, [])"
  using explicit_falsy_no_such_stream [of _
     "[(''streams'', JObj [(''secure_rtmp_stream'', JStr []), (''shoutcast_stream'', JStr []),
        (''stw_stream'', JStr []), (''pls_stream'', JStr [])])]"
     "[(''secure_rtmp_stream'', JStr []), (''shoutcast_stream'', JStr []),
       (''stw_stream'', JStr []), (''pls_stream'', JStr [])]"
     "JStr []"]
  by simp

text \<open>
  C10. For every station value and every stream type other than \<open>auto\<close>, \<open>rtmp\<close>,
  \<open>shout\<close>, \<open>stw\<close> and \<open>pls\<close>, no branch assigns \<open>station_url\<close>, and the request fails with
  the \<open>RuntimeError\<close> "Requested stream does not exist" without printing.
\<close>

theorem unknown_stream_type_fails:
  assumes "stream_type \<notin> {''auto'', ''rtmp'', ''shout'', ''stw'', ''pls''}"
  shows "get_station_url station stream_type = (Inl no_such_stream, [])"
  using assms by (simp add: get_station_url_def)

theorem unknown_stream_type_fails_witness:
  "get_station_url (JObj [(''streams'', JObj [(''shoutcast_stream'', JStr ''http://s'')])]) ''http''
     = (Inl no_such_stream, [])"
  using unknown_stream_type_fails [of "''http''"] by simp

section \<open>Properties of station lookup\<close>

subsection \<open>The characters of a rendered identifier\<close>

lemma digit_char_all:
  "list_all (\<lambda>n. char_of (48 + n :: nat) \<in> set ''0123456789'') [0..<10]"
  by code_simp

lemma digit_char: "n < 10 \<Longrightarrow> char_of (48 + n :: nat) \<in> set ''0123456789''"
  using digit_char_all unfolding list_all_iff by auto

lemma digits_chars: "set (digits n) \<subseteq> set ''0123456789''"
proof (induction n rule: digits.induct)
  case (1 n)
  show ?case
  proof (cases "n < 10")
    case True
    then show ?thesis using digit_char [of n] by (subst digits.simps) simp
  next
    case False
    have "n mod 10 < 10" by simp
    then have "char_of (48 + n mod 10) \<in> set ''0123456789''" by (rule digit_char)
    with False 1 show ?thesis by (subst digits.simps) simp
  qed
qed

lemma digits_nonempty: "digits n \<noteq> []"
  by (subst digits.simps) simp

lemma str_int_chars: "set (str_int i) \<subseteq> set ''-0123456789''"
proof -
  have sub: "set ''0123456789'' \<subseteq> set ''-0123456789''" by simp
  have "set (digits n) \<subseteq> set ''-0123456789''" for n
    using digits_chars [of n] sub by (rule subset_trans)
  then show ?thesis by (simp add: str_int_def)
qed

lemma str_int_nonempty: "str_int i \<noteq> []"
  by (simp add: str_int_def digits_nonempty)

lemma str_int_all:
  assumes "list_all P ''-0123456789''"
  shows "\<forall>c \<in> set (str_int i). P c"
  using assms str_int_chars [of i] unfolding list_all_iff by blast

lemma str_int_hd:
  assumes "list_all P ''-0123456789''"
  shows "P (hd (str_int i))"
  using str_int_all [OF assms, of i] str_int_nonempty [of i] by (cases "str_int i") auto

lemma str_int_no_colon: "CHR '':'' \<notin> set (str_int i)"
  using str_int_all [of "\<lambda>c. c \<noteq> CHR '':''" i] by auto

lemma str_int_no_slash: "CHR ''/'' \<notin> set (str_int i)"
  using str_int_all [of "\<lambda>c. c \<noteq> CHR ''/''" i] by auto

lemma str_int_no_query: "CHR ''?'' \<notin> set (str_int i)"
  using str_int_all [of "\<lambda>c. c \<noteq> CHR ''?''" i] by auto

lemma str_int_no_hash: "CHR ''#'' \<notin> set (str_int i)"
  using str_int_all [of "\<lambda>c. c \<noteq> CHR ''#''" i] by auto

lemma str_int_no_semi: "CHR '';'' \<notin> set (str_int i)"
  using str_int_all [of "\<lambda>c. c \<noteq> CHR '';''" i] by auto

lemma str_int_no_dot: "CHR ''.'' \<notin> set (str_int i)"
  using str_int_all [of "\<lambda>c. c \<noteq> CHR ''.''" i] by auto

lemma id_chars_safe: "list_all (\<lambda>c. \<not> unsafe_url_byte c) ''-0123456789''"
  by (simp add: unsafe_url_byte_def)

lemma id_chars_visible: "list_all (\<lambda>c. \<not> c0_control_or_space c) ''-0123456789''"
  by (simp add: c0_control_or_space_def)

lemma str_int_safe: "filter (\<lambda>c. \<not> unsafe_url_byte c) (str_int i) = str_int i"
  using str_int_all [OF id_chars_safe, of i] by (simp add: filter_id_conv)

lemma str_int_hd_visible: "\<not> c0_control_or_space (hd (str_int i))"
  using str_int_hd [OF id_chars_visible] .

lemma str_int_hd_no_slash: "hd (str_int i) \<noteq> CHR ''/''"
  using str_int_hd [of "\<lambda>c. c \<noteq> CHR ''/''" i] by simp

lemma str_int_not_dots: "str_int i \<noteq> ''.''" "str_int i \<noteq> ''..''"
  using str_int_no_dot [of i] by auto

subsection \<open>Splitting the URLs of the request\<close>

lemma split_on_append: "c \<notin> set xs \<Longrightarrow> split_on c (xs @ c # ys) = xs # split_on c ys"
  by (induction xs) auto

lemma dropWhile_hd: "xs \<noteq> [] \<Longrightarrow> \<not> P (hd xs) \<Longrightarrow> dropWhile P (xs @ ys) = xs @ ys"
  by (cases xs) auto

lemma take1_iff: "(take 1 p = [c]) = (p \<noteq> [] \<and> hd p = c)"
  by (cases p) auto

lemma clean_scheme_empty: "clean_scheme [] = []"
  by (simp add: clean_scheme_def)

lemma clean_scheme_http: "clean_scheme ''http'' = ''http''"
  by (simp add: clean_scheme_def c0_control_or_space_def unsafe_url_byte_def)

lemma clean_url_base: "clean_url iheart_base_url = iheart_base_url"
  by (simp add: clean_url_def iheart_base_url_def c0_control_or_space_def unsafe_url_byte_def)

lemma clean_url_postfix: "clean_url iheart_url_postfix = iheart_url_postfix"
  by (simp add: clean_url_def iheart_url_postfix_def c0_control_or_space_def unsafe_url_byte_def)

lemma clean_url_id: "clean_url (str_int i @ ''/'') = str_int i @ ''/''"
proof -
  have "dropWhile c0_control_or_space (str_int i @ ''/'') = str_int i @ ''/''"
    using str_int_nonempty str_int_hd_visible by (rule dropWhile_hd)
  moreover have "\<not> unsafe_url_byte CHR ''/''"
    by (simp add: unsafe_url_byte_def)
  ultimately show ?thesis
    by (simp add: clean_url_def str_int_safe)
qed

lemma clean_url_base_id:
  "clean_url (iheart_base_url @ str_int i @ ''/'') = iheart_base_url @ str_int i @ ''/''"
proof -
  have ne: "iheart_base_url \<noteq> []" and hd: "\<not> c0_control_or_space (hd iheart_base_url)"
    by (simp_all add: iheart_base_url_def c0_control_or_space_def)
  have drop: "dropWhile c0_control_or_space (iheart_base_url @ str_int i @ ''/'')
      = iheart_base_url @ str_int i @ ''/''"
    using ne hd by (rule dropWhile_hd)
  have base: "filter (\<lambda>c. \<not> unsafe_url_byte c) iheart_base_url = iheart_base_url"
    by (simp add: iheart_base_url_def unsafe_url_byte_def)
  have slash: "\<not> unsafe_url_byte CHR ''/''"
    by (simp add: unsafe_url_byte_def)
  show ?thesis
    unfolding clean_url_def drop filter_append base str_int_safe using slash by simp
qed

lemma split_scheme_none: "CHR '':'' \<notin> set url \<Longrightarrow> split_scheme scheme url = (scheme, url)"
  by (simp add: split_scheme_def)

lemma split_scheme_http:
  "split_scheme scheme (CHR ''h'' # CHR ''t'' # CHR ''t'' # CHR ''p'' # CHR '':'' # rest)
     = (''http'', rest)"
  by (simp add: split_scheme_def before_def after_def ascii_alpha_def scheme_chars_def
      ascii_lower_def)

lemma netloc_part_none:
  "url \<noteq> [] \<Longrightarrow> hd url \<noteq> CHR ''/'' \<Longrightarrow> netloc_part url = ([], url)"
  by (cases url) (simp_all add: netloc_part_def)

lemma split_once_none: "c \<notin> set url \<Longrightarrow> split_once c url = (url, [])"
  by (simp add: split_once_def)

lemma urlsplit_base_rest:
  assumes "check ''www.iheart.com'' = None"
    and "CHR ''#'' \<notin> set rest" and "CHR ''?'' \<notin> set rest"
    and "clean_url (iheart_base_url @ rest) = iheart_base_url @ rest"
  shows "urlsplit check (iheart_base_url @ rest) [] =
     Inr (''http'', ''www.iheart.com'', ''/a/live/station/'' @ rest, [], [])"
  unfolding urlsplit_def assms(4) clean_scheme_empty
  using assms(1,2,3)
  by (simp add: iheart_base_url_def split_scheme_http netloc_part_def splitnetloc_def
      split_once_def)

lemma urlparse_base_rest:
  assumes "check ''www.iheart.com'' = None"
    and "CHR ''#'' \<notin> set rest" and "CHR ''?'' \<notin> set rest" and "CHR '';'' \<notin> set rest"
    and "clean_url (iheart_base_url @ rest) = iheart_base_url @ rest"
  shows "urlparse check (iheart_base_url @ rest) [] =
     Inr (''http'', ''www.iheart.com'', ''/a/live/station/'' @ rest, [], [], [])"
  using assms(4) urlsplit_base_rest [of check rest, OF assms(1,2,3,5)]
  by (simp add: urlparse_def)

lemma urlparse_base:
  assumes "check ''www.iheart.com'' = None"
  shows "urlparse check iheart_base_url [] =
     Inr (''http'', ''www.iheart.com'', ''/a/live/station/'', [], [], [])"
  using urlparse_base_rest [of check "[]"] assms by (simp add: clean_url_base)

lemma urlparse_base_id:
  assumes "check ''www.iheart.com'' = None"
  shows "urlparse check (iheart_base_url @ str_int i @ ''/'') [] =
     Inr (''http'', ''www.iheart.com'', ''/a/live/station/'' @ str_int i @ ''/'', [], [], [])"
  using urlparse_base_rest [of check "str_int i @ ''/''"] assms
  by (simp add: clean_url_base_id str_int_no_hash str_int_no_query str_int_no_semi)

lemma urlsplit_id:
  "urlsplit check (str_int i @ ''/'') ''http'' = Inr (''http'', [], str_int i @ ''/'', [], [])"
proof -
  have scheme: "split_scheme ''http'' (str_int i @ ''/'') = (''http'', str_int i @ ''/'')"
    by (rule split_scheme_none) (simp add: str_int_no_colon)
  have netloc: "netloc_part (str_int i @ ''/'') = ([], str_int i @ ''/'')"
    by (rule netloc_part_none) (simp_all add: str_int_nonempty str_int_hd_no_slash)
  have frag: "split_once CHR ''#'' (str_int i @ ''/'') = (str_int i @ ''/'', [])"
    by (rule split_once_none) (simp add: str_int_no_hash)
  have query: "split_once CHR ''?'' (str_int i @ ''/'') = (str_int i @ ''/'', [])"
    by (rule split_once_none) (simp add: str_int_no_query)
  show ?thesis
    unfolding urlsplit_def clean_url_id clean_scheme_http scheme
    by (simp add: netloc frag query)
qed

lemma urlparse_id:
  "urlparse check (str_int i @ ''/'') ''http'' =
     Inr (''http'', [], str_int i @ ''/'', [], [], [])"
  by (simp add: urlparse_def urlsplit_id str_int_no_semi)

lemma urlparse_postfix:
  "urlparse check iheart_url_postfix ''http'' = Inr (''http'', [], ''stream/'', [], [], [])"
  unfolding urlparse_def urlsplit_def clean_url_postfix clean_scheme_http
  by (simp add: iheart_url_postfix_def split_scheme_def netloc_part_def split_once_def)

subsection \<open>Joining them\<close>

lemma resolve_path_id:
  "resolve_path ''/a/live/station/'' (str_int i @ ''/'') = ''/a/live/station/'' @ str_int i @ ''/''"
  unfolding resolve_path_def take1_iff
  by (simp add: Let_def str_int_nonempty str_int_hd_no_slash split_on_append str_int_no_slash
      str_int_not_dots)

lemma resolve_path_postfix:
  "resolve_path (''/a/live/station/'' @ str_int i @ ''/'') ''stream/''
     = ''/a/live/station/'' @ str_int i @ ''/stream/''"
  unfolding resolve_path_def take1_iff
  by (simp add: Let_def str_int_nonempty split_on_append str_int_no_slash str_int_not_dots)

lemma urlunparse_http:
  "urlunparse (''http'', ''www.iheart.com'', CHR ''/'' # p, [], [], [])
     = ''http://www.iheart.com/'' @ p"
  by (simp add: urlunparse_def urlunsplit_def)

lemma urljoin_id:
  assumes "check ''www.iheart.com'' = None"
  shows "urljoin check iheart_base_url (str_int i @ ''/'') = Inr (iheart_base_url @ str_int i @ ''/'')"
proof -
  have base: "iheart_base_url \<noteq> []" by (simp add: iheart_base_url_def)
  show ?thesis
    unfolding urljoin_def urlparse_base [of check, OF assms]
    using base
    by (simp add: urlparse_id resolve_path_id urlunparse_http uses_relative_def uses_netloc_def
        iheart_base_url_def)
qed

lemma urljoin_postfix:
  assumes "check ''www.iheart.com'' = None"
  shows "urljoin check (iheart_base_url @ str_int i @ ''/'') iheart_url_postfix
     = Inr (iheart_base_url @ str_int i @ ''/stream/'')"
proof -
  have base: "iheart_base_url \<noteq> []" by (simp add: iheart_base_url_def)
  have post: "iheart_url_postfix \<noteq> []" by (simp add: iheart_url_postfix_def)
  show ?thesis
    unfolding urljoin_def urlparse_base_id [of check, OF assms]
    using base post
    by (simp add: urlparse_postfix resolve_path_postfix [simplified] urlunparse_http
        uses_relative_def uses_netloc_def iheart_base_url_def)
qed

lemma str_int_1165: "str_int 1165 = ''1165''"
  by code_simp

lemma iheart_url_1165:
  "iheart_url (\<lambda>netloc. None) 1165 = Inr ''http://www.iheart.com/a/live/station/1165/stream/''"
  by code_simp

subsection \<open>The claims about station lookup\<close>

text \<open>
  C8. For every station identifier, the URL that \<open>station_info\<close> requests is the base
  path, the identifier in decimal followed by \<open>/\<close>, and the suffix \<open>stream/\<close>, that is
  \<open>http://www.iheart.com/a/live/station/{id}/stream/\<close>; the library's check of a network
  location has to accept the host \<open>www.iheart.com\<close>.
\<close>

theorem iheart_url_template:
  assumes "check ''www.iheart.com'' = None"
  shows "iheart_url check station_id =
     Inr (''http://www.iheart.com/a/live/station/'' @ str_int station_id @ ''/stream/'')"
  unfolding iheart_url_def urljoin_id [of check, OF assms]
  by (simp add: urljoin_postfix [of check, OF assms]) (simp add: iheart_base_url_def)

theorem iheart_url_template_witness:
  "iheart_url (\<lambda>netloc. None) 1165 = Inr ''http://www.iheart.com/a/live/station/1165/stream/''"
  using iheart_url_template [of "\<lambda>netloc. None" 1165] by (simp add: str_int_1165)

text \<open>
  C9. For every response whose \<open>Content-Type\<close> header is not
  \<open>application/json; charset=utf-8\<close> (or is missing), \<open>station_info\<close> fails with the
  \<open>AssertionError\<close> of its \<open>assert\<close>, whatever the decoders would have made of the body:
  no station record is decoded or returned.
\<close>

theorem station_info_content_type:
  assumes "iheart_url (checknetloc env) station_id = Inr url"
    and "urlopen env url ''1'' = Inr response"
    and "getheader response ''Content-Type'' \<noteq> Some ''application/json; charset=utf-8''"
  shows "station_info (env\<lparr>decode_utf8 := decode, json_loads := loads\<rparr>) station_id
     = Inl AssertionError"
  using assms by (simp add: station_info_def)

theorem station_info_content_type_witness:
  "station_info (canned_env (Some ''text/html'') (JObj [(''ok'', JBool True)])) 1165
     = Inl AssertionError"
  using station_info_content_type [where
      env = "canned_env (Some ''text/html'') (JObj [(''ok'', JBool True)])"
      and station_id = 1165
      and url = "''http://www.iheart.com/a/live/station/1165/stream/''"
      and response = "\<lparr> getheader = (\<lambda>name. if name = ''Content-Type''
                                       then Some ''text/html'' else None),
                      read = [] \<rparr>"
      and decode = "\<lambda>bytes. Inr bytes"
      and loads = "\<lambda>text. Inr (JObj [(''ok'', JBool True)])"]
  by (simp add: canned_env_def iheart_url_1165)

text \<open>
  C7. For every decoded station record: when its \<open>ok\<close> field is false, \<open>station_info\<close>
  fails with a \<open>RuntimeError\<close> that carries the value of the record's \<open>error\<close> field as
  it is; when \<open>ok\<close> is true, \<open>station_info\<close> returns the record unchanged.
\<close>

theorem station_info_ok_field:
  assumes "iheart_url (checknetloc env) station_id = Inr url"
    and "urlopen env url ''1'' = Inr response"
    and "getheader response ''Content-Type'' = Some ''application/json; charset=utf-8''"
    and "decode_utf8 env (read response) = Inr decoded"
    and "json_loads env decoded = Inr station"
    and "station = JObj members"
  shows "(map_of members ''ok'' = Some (JBool False) \<and> map_of members ''error'' = Some message
            \<longrightarrow> station_info env station_id = Inl (RuntimeError message))
       \<and> (map_of members ''ok'' = Some (JBool True) \<longrightarrow> station_info env station_id = Inr station)"
  using assms by (simp add: station_info_def)

theorem station_info_ok_field_witness:
  "station_info (canned_env (Some ''application/json; charset=utf-8'')
       (JObj [(''ok'', JBool False), (''error'', JStr ''bad id'')])) 1165
     = Inl (RuntimeError (JStr ''bad id''))
   \<and> station_info (canned_env (Some ''application/json; charset=utf-8'')
       (JObj [(''ok'', JBool True), (''streams'', JObj [])])) 1165
     = Inr (JObj [(''ok'', JBool True), (''streams'', JObj [])])"
  using station_info_ok_field [where
      env = "canned_env (Some ''application/json; charset=utf-8'')
         (JObj [(''ok'', JBool False), (''error'', JStr ''bad id'')])"
      and station_id = 1165
      and url = "''http://www.iheart.com/a/live/station/1165/stream/''"
      and response = "\<lparr> getheader = (\<lambda>name. if name = ''Content-Type''
                          then Some ''application/json; charset=utf-8'' else None),
                      read = [] \<rparr>"
      and decoded = "[]"
      and station = "JObj [(''ok'', JBool False), (''error'', JStr ''bad id'')]"
      and members = "[(''ok'', JBool False), (''error'', JStr ''bad id'')]"
      and message = "JStr ''bad id''"]
    station_info_ok_field [where
      env = "canned_env (Some ''application/json; charset=utf-8'')
         (JObj [(''ok'', JBool True), (''streams'', JObj [])])"
      and station_id = 1165
      and url = "''http://www.iheart.com/a/live/station/1165/stream/''"
      and response = "\<lparr> getheader = (\<lambda>name. if name = ''Content-Type''
                          then Some ''application/json; charset=utf-8'' else None),
                      read = [] \<rparr>"
      and decoded = "[]"
      and station = "JObj [(''ok'', JBool True), (''streams'', JObj [])]"
      and members = "[(''ok'', JBool True), (''streams'', JObj [])]"
      and message = "JNull"]
  by (simp add: canned_env_def iheart_url_1165)

end
